theory Spec2Isabelle
  imports Main "HOL-Library.Char_ord" "HOL-Library.List_Lexorder"
begin

section \<open>Python values, exceptions and the primitives the handlers use\<close>

text \<open>
  \<^verbatim>\<open>ui_server.py\<close> is a Flask application: every route handler reads the parsed JSON
  body of the request (\<^verbatim>\<open>request.get_json()\<close>), calls into collaborators and returns a
  string. The values that \<^verbatim>\<open>get_json\<close> and \<^verbatim>\<open>json.loads\<close> produce are modelled by
  \<open>json\<close>: \<^verbatim>\<open>None\<close>, booleans, integers, strings, lists and dictionaries with string keys,
  a dictionary being the list of its items in insertion order. Floating-point numbers are
  left out. Strings are lists of 8-bit characters; the model is exact on ASCII text.
\<close>

datatype json =
    JNull
  | JBool bool
  | JInt int
  | JStr string
  | JList "json list"
  | JDict "(string \<times> json) list"

text \<open>
  Exceptions are values. \<open>KeyError\<close>, \<open>TypeError\<close>, \<open>AttributeError\<close>, \<open>ValueError\<close> and
  \<open>RuntimeError\<close> are raised by the handlers' own statements; \<open>Raised name\<close> is any other
  exception class, raised inside a collaborator (\<^verbatim>\<open>ImportError\<close>, \<^verbatim>\<open>JSONDecodeError\<close>,
  \<^verbatim>\<open>OSError\<close>, ...).
\<close>

datatype error =
    KeyError json
  | TypeError
  | AttributeError
  | ValueError
  | RuntimeError string
  | Raised string

text \<open>Truth value of a Python object, as tested by \<^verbatim>\<open>if vector_path:\<close>.\<close>

fun truthy :: "json \<Rightarrow> bool" where
  "truthy JNull = False"
| "truthy (JBool b) = b"
| "truthy (JInt i) = (i \<noteq> 0)"
| "truthy (JStr s) = (s \<noteq> [])"
| "truthy (JList xs) = (xs \<noteq> [])"
| "truthy (JDict kvs) = (kvs \<noteq> [])"

text \<open>
  \<^verbatim>\<open>payload['key']\<close>: a dictionary without the key raises \<^verbatim>\<open>KeyError\<close>; any other value
  subscripted with a string raises \<^verbatim>\<open>TypeError\<close>.
\<close>

fun getitem :: "json \<Rightarrow> string \<Rightarrow> error + json" where
  "getitem (JDict kvs) k =
     (case map_of kvs k of None \<Rightarrow> Inl (KeyError (JStr k)) | Some v \<Rightarrow> Inr v)"
| "getitem _ k = Inl TypeError"

text \<open>
  \<^verbatim>\<open>d[key]\<close> on a dictionary with string keys, the key being any parsed JSON value: lists and
  dictionaries are unhashable (\<^verbatim>\<open>TypeError\<close>), every other missing key is a \<^verbatim>\<open>KeyError\<close>.
\<close>

fun dict_lookup :: "(string \<rightharpoonup> 'v) \<Rightarrow> json \<Rightarrow> error + 'v" where
  "dict_lookup d (JStr k) = (case d k of None \<Rightarrow> Inl (KeyError (JStr k)) | Some v \<Rightarrow> Inr v)"
| "dict_lookup d (JList xs) = Inl TypeError"
| "dict_lookup d (JDict kvs) = Inl TypeError"
| "dict_lookup d v = Inl (KeyError v)"

subsection \<open>\<^verbatim>\<open>repr\<close> and \<^verbatim>\<open>str\<close>\<close>

definition hex_digit :: "nat \<Rightarrow> char" where
  "hex_digit n = ''0123456789abcdef'' ! (n mod 16)"

fun digits_of :: "nat \<Rightarrow> string" where
  "digits_of n = (if n < 10 then [hex_digit n] else digits_of (n div 10) @ [hex_digit (n mod 10)])"

definition repr_int :: "int \<Rightarrow> string" where
  "repr_int i = (if i < 0 then CHR ''-'' # digits_of (nat (- i)) else digits_of (nat i))"

text \<open>
  \<^verbatim>\<open>repr\<close> of a string: the quote is \<^verbatim>\<open>'\<close> unless the string holds a \<^verbatim>\<open>'\<close> and no \<^verbatim>\<open>"\<close>;
  the quote and the backslash are escaped, as are tab, newline, carriage return and the
  other control characters.
\<close>

definition repr_char :: "char \<Rightarrow> char \<Rightarrow> string" where
  "repr_char q c =
     (if c = q \<or> c = CHR 0x5C then [CHR 0x5C, c]
      else if c = CHR 0x09 then [CHR 0x5C, CHR ''t'']
      else if c = CHR 0x0A then [CHR 0x5C, CHR ''n'']
      else if c = CHR 0x0D then [CHR 0x5C, CHR ''r'']
      else if (of_char c :: nat) < 32 \<or> c = CHR 0x7F
        then [CHR 0x5C, CHR ''x'', hex_digit (of_char c div 16), hex_digit (of_char c)]
      else [c])"

definition repr_str :: "string \<Rightarrow> string" where
  "repr_str s =
     (let q = (if CHR 0x27 \<in> set s \<and> CHR 0x22 \<notin> set s then CHR 0x22 else CHR 0x27)
      in q # concat (map (repr_char q) s) @ [q])"

text \<open>\<^verbatim>\<open>', '.join(parts)\<close>\<close>

fun join_comma :: "string list \<Rightarrow> string" where
  "join_comma [] = []"
| "join_comma [x] = x"
| "join_comma (x # y # ys) = x @ '', '' @ join_comma (y # ys)"

text \<open>
  \<open>repr_with sorted v\<close> is the one-line text of a value. With \<open>sorted = False\<close> it is the
  built-in \<^verbatim>\<open>repr\<close> (dictionary items in insertion order); with \<open>sorted = True\<close> it is
  \<^verbatim>\<open>pprint\<close>'s \<^verbatim>\<open>_safe_repr\<close>, which sorts the items of every dictionary by key.
\<close>

fun repr_with :: "bool \<Rightarrow> json \<Rightarrow> string" where
  "repr_with b JNull = ''None''"
| "repr_with b (JBool t) = (if t then ''True'' else ''False'')"
| "repr_with b (JInt i) = repr_int i"
| "repr_with b (JStr s) = repr_str s"
| "repr_with b (JList xs) = ''['' @ join_comma (map (repr_with b) xs) @ '']''"
| "repr_with b (JDict kvs) =
     (let items = map (\<lambda>kv. (fst kv, repr_with b (snd kv))) kvs;
          items' = (if b then sort_key fst items else items)
      in ''{'' @ join_comma (map (\<lambda>kr. repr_str (fst kr) @ '': '' @ snd kr) items') @ ''}'')"

text \<open>\<^verbatim>\<open>str(v)\<close>, which \<^verbatim>\<open>str.format\<close> applies to each field value.\<close>

fun py_str :: "json \<Rightarrow> string" where
  "py_str (JStr s) = s"
| "py_str v = repr_with False v"

subsection \<open>\<^verbatim>\<open>json.dumps\<close>\<close>

text \<open>
  \<^verbatim>\<open>json.dumps\<close> with its default separators and \<^verbatim>\<open>ensure_ascii\<close>: in a string, the double
  quote, the backslash and every character outside the printable ASCII range are escaped.
\<close>

definition json_escape :: "char \<Rightarrow> string" where
  "json_escape c =
     (if c = CHR 0x22 \<or> c = CHR 0x5C then [CHR 0x5C, c]
      else if c = CHR 0x0A then [CHR 0x5C, CHR ''n'']
      else if c = CHR 0x0D then [CHR 0x5C, CHR ''r'']
      else if c = CHR 0x09 then [CHR 0x5C, CHR ''t'']
      else if c = CHR 0x08 then [CHR 0x5C, CHR ''b'']
      else if c = CHR 0x0C then [CHR 0x5C, CHR ''f'']
      else if (of_char c :: nat) < 32 \<or> (of_char c :: nat) > 126
        then [CHR 0x5C, CHR ''u'', CHR ''0'', CHR ''0'',
              hex_digit (of_char c div 16), hex_digit (of_char c)]
      else [c])"

definition json_string :: "string \<Rightarrow> string" where
  "json_string s = CHR 0x22 # concat (map json_escape s) @ [CHR 0x22]"

fun json_dumps :: "json \<Rightarrow> string" where
  "json_dumps JNull = ''null''"
| "json_dumps (JBool t) = (if t then ''true'' else ''false'')"
| "json_dumps (JInt i) = repr_int i"
| "json_dumps (JStr s) = json_string s"
| "json_dumps (JList xs) = ''['' @ join_comma (map json_dumps xs) @ '']''"
| "json_dumps (JDict kvs) =
     ''{'' @ join_comma (map (\<lambda>kv. json_string (fst kv) @ '': '' @ json_dumps (snd kv)) kvs)
       @ ''}''"

subsection \<open>\<^verbatim>\<open>str.replace\<close> and \<^verbatim>\<open>str.format\<close>\<close>

text \<open>
  \<^verbatim>\<open>s.replace(old, new)\<close>: the occurrences of \<open>old\<close> are found from the left and do not
  overlap; an empty \<open>old\<close> matches before every character and at the end.
\<close>

function str_replace :: "string \<Rightarrow> string \<Rightarrow> string \<Rightarrow> string" where
  "str_replace old new [] = (if old = [] then new else [])"
| "str_replace old new (c # cs) =
     (if old = [] then new @ c # str_replace old new cs
      else if take (length old) (c # cs) = old
        then new @ str_replace old new (drop (length old) (c # cs))
      else c # str_replace old new cs)"
  by pat_completeness auto
termination
  by (relation "measure (\<lambda>(old, new, s). length s)") (auto simp: Suc_diff_le neq_Nil_conv)

text \<open>
  \<^verbatim>\<open>template.format(**kw)\<close> for templates whose replacement fields are plain names:
  \<^verbatim>\<open>{{\<close> and \<^verbatim>\<open>}}\<close> are literal braces, \<^verbatim>\<open>{name}\<close> is replaced by \<^verbatim>\<open>str(kw[name])\<close>, a
  missing name raises \<^verbatim>\<open>KeyError\<close>, an unmatched brace raises \<^verbatim>\<open>ValueError\<close>. The text
  substituted for a field is not scanned again.
\<close>

function format_py :: "(string \<rightharpoonup> json) \<Rightarrow> string \<Rightarrow> error + string" where
  "format_py kw [] = Inr []"
| "format_py kw (c # cs) =
     (if c = CHR ''{'' then
        (if take 1 cs = ''{'' then
           (case format_py kw (drop 1 cs) of Inl e \<Rightarrow> Inl e | Inr r \<Rightarrow> Inr (CHR ''{'' # r))
         else if CHR ''}'' \<in> set cs then
           (case kw (takeWhile (\<lambda>x. x \<noteq> CHR ''}'') cs) of
              None \<Rightarrow> Inl (KeyError (JStr (takeWhile (\<lambda>x. x \<noteq> CHR ''}'') cs)))
            | Some v \<Rightarrow>
               (case format_py kw (drop 1 (dropWhile (\<lambda>x. x \<noteq> CHR ''}'') cs)) of
                  Inl e \<Rightarrow> Inl e
                | Inr r \<Rightarrow> Inr (py_str v @ r)))
         else Inl ValueError)
      else if c = CHR ''}'' then
        (if take 1 cs = ''}'' then
           (case format_py kw (drop 1 cs) of Inl e \<Rightarrow> Inl e | Inr r \<Rightarrow> Inr (CHR ''}'' # r))
         else Inl ValueError)
      else (case format_py kw cs of Inl e \<Rightarrow> Inl e | Inr r \<Rightarrow> Inr (c # r)))"
  by pat_completeness auto
termination
proof (relation "measure (\<lambda>(kw, s). length s)")
  fix kw :: "string \<rightharpoonup> json" and c :: char and cs :: string and x2 :: json
  have "length (dropWhile (\<lambda>x. x \<noteq> CHR ''}'') cs) \<le> length cs"
    by (rule length_dropWhile_le)
  then show "((kw, drop 1 (dropWhile (\<lambda>x. x \<noteq> CHR ''}'') cs)), kw, c # cs)
        \<in> measure (\<lambda>(kw, s). length s)"
    by simp
qed auto

section \<open>Collaborators and server state\<close>

text \<open>
  An entry of \<^verbatim>\<open>natcap.invest.cli._MODEL_UIS\<close> (of which the handlers read \<^verbatim>\<open>pyname\<close> and
  \<^verbatim>\<open>humanname\<close>), and the named tuple \<^verbatim>\<open>_UI_META\<close> of this file.
\<close>

record model_ui =
  pyname :: string
  humanname :: string

record ui_meta =
  run_name :: string
  human_name :: string

text \<open>
  What the handlers use of an imported model module: \<^verbatim>\<open>__file__\<close>, \<^verbatim>\<open>ARGS_SPEC\<close> and
  \<^verbatim>\<open>validate(args, limit_to=...)\<close>. \<open>None\<close> is a missing attribute. A validation result
  is a list of pairs, written as the JSON value that \<^verbatim>\<open>json.dumps\<close> makes of it.
\<close>

record py_module =
  module_file :: string
  ARGS_SPEC :: "json option"
  validate :: "(json \<Rightarrow> json \<Rightarrow> error + json) option"

text \<open>
  What the column-name handler reads of a GDAL dataset: \<^verbatim>\<open>GetLayer()\<close> (which may be
  \<^verbatim>\<open>None\<close>) and the names of the layer's \<^verbatim>\<open>schema\<close>.
\<close>

datatype gdal_layer = Layer (schema: "string list")

datatype gdal_dataset = Dataset (GetLayer: "gdal_layer option")

text \<open>The named tuple that \<^verbatim>\<open>natcap.invest.datastack.get_datastack_info\<close> returns.\<close>

record datastack_info =
  args :: json
  model_name :: json
  invest_version :: json

datatype file_content = Text string | Datastack string datastack_info

text \<open>
  The collaborators are parameters of the model. \<open>MODEL_UIS\<close> is the dictionary
  \<^verbatim>\<open>natcap.invest.cli._MODEL_UIS\<close> as the list of its items, \<open>cli_version\<close> is
  \<^verbatim>\<open>natcap.invest.cli.__version__\<close>, \<open>today\<close> is \<^verbatim>\<open>datetime.now().strftime('%c')\<close>.
  \<open>gdal_OpenEx\<close> returns \<open>Inr None\<close> where GDAL returns \<^verbatim>\<open>None\<close> instead of raising.
  \<open>open_error p\<close> is the exception that opening \<open>p\<close> for writing raises, if any.
  \<open>pformat_wrapped\<close> is \<^verbatim>\<open>pprint\<close>'s multi-line layout of a value whose one-line text is
  wider than 80 columns.
\<close>

record env =
  MODEL_UIS :: "(string \<times> model_ui) list"
  cli_version :: string
  build_model_list_json :: string
  import_module :: "json \<Rightarrow> error + py_module"
  json_loads :: "string \<Rightarrow> error + json"
  gdal_OpenEx :: "json \<Rightarrow> error + gdal_dataset option"
  vector_may_contain_points :: "json \<Rightarrow> error + bool"
  pformat_wrapped :: "json \<Rightarrow> string"
  today :: string
  open_error :: "json \<Rightarrow> error option"
  parameter_set_type :: string

text \<open>Calls of the logger and of the collaborators, in the order they happen.\<close>

datatype event =
    LogDebug json
  | LogDebugText string
  | LogError string
  | CallImportModule json
  | CallValidate json json json
  | CallOpenEx json
  | CallVectorMayContainPoints json
  | CallGetDatastackInfo json
  | CallBuildParameterSet json json json json
  | CallServerShutdown

text \<open>
  The state a handler can touch: the module-level dictionary \<^verbatim>\<open>MODULE_MODELRUN_MAP\<close>, the
  files on disk (keyed by the path value given to the call that opens them), the calls
  made so far, and whether the server is still running.
\<close>

record server_state =
  MODULE_MODELRUN_MAP :: "string \<rightharpoonup> ui_meta"
  files :: "json \<rightharpoonup> file_content"
  events :: "event list"
  running :: bool

record request =
  get_json :: json
  werkzeug_server_shutdown :: bool

definition emit :: "event \<Rightarrow> server_state \<Rightarrow> server_state" where
  "emit ev s = s\<lparr>events := events s @ [ev]\<rparr>"

text \<open>
  The dictionary comprehension of lines 25 to 29: one entry per item of \<^verbatim>\<open>_MODEL_UIS\<close>,
  keyed by the module name, a later item replacing an earlier one with the same key.
\<close>

definition build_MODULE_MODELRUN_MAP :: "(string \<times> model_ui) list \<Rightarrow> (string \<rightharpoonup> ui_meta)" where
  "build_MODULE_MODELRUN_MAP uis =
     foldl (\<lambda>m kv. m(pyname (snd kv) \<mapsto> \<lparr>run_name = fst kv, human_name = humanname (snd kv)\<rparr>))
       Map.empty uis"

text \<open>The state once the module has been imported, on a disk holding \<open>fs\<close>.\<close>

definition startup :: "env \<Rightarrow> (json \<rightharpoonup> file_content) \<Rightarrow> server_state" where
  "startup E fs =
     \<lparr>MODULE_MODELRUN_MAP = build_MODULE_MODELRUN_MAP (MODEL_UIS E),
      files = fs, events = [], running = True\<rparr>"

text \<open>
  \<^verbatim>\<open>json.loads(v)\<close>: a value that is not a string raises \<^verbatim>\<open>TypeError\<close>; a string is handed
  to the parser.
\<close>

definition py_json_loads :: "env \<Rightarrow> json \<Rightarrow> error + json" where
  "py_json_loads E v = (case v of JStr s \<Rightarrow> json_loads E s | _ \<Rightarrow> Inl TypeError)"

text \<open>
  \<^verbatim>\<open>pprint.pformat(v, indent=4)\<close>: the one-line text with sorted dictionary items when it
  fits the default width of 80 columns, the wrapped layout otherwise.
\<close>

definition pformat :: "env \<Rightarrow> json \<Rightarrow> string" where
  "pformat E v =
     (if length (repr_with True v) \<le> 80 then repr_with True v else pformat_wrapped E v)"

text \<open>
  Modelled from the spec: \<^verbatim>\<open>natcap.invest.datastack.get_datastack_info\<close> is not part of
  the sources at hand. The parser yields the type of the file and the record of
  arguments, model name and tool version that the file holds, and fails on a file it
  cannot parse.
\<close>

definition get_datastack_info ::
  "(json \<rightharpoonup> file_content) \<Rightarrow> json \<Rightarrow> error + (string \<times> datastack_info)" where
  "get_datastack_info fs filepath =
     (case fs filepath of
        Some (Datastack stack_type stack_info) \<Rightarrow> Inr (stack_type, stack_info)
      | _ \<Rightarrow> Inl (Raised ''ValueError''))"

text \<open>
  Modelled from the spec: \<^verbatim>\<open>natcap.invest.datastack.build_parameter_set\<close> is not part of
  the sources at hand. The serializer persists the arguments, with the model name and
  the tool version, as a parameter-set file (a datastack subtype) such that the parser
  reads the same model name and arguments back; it fails on an I/O error.
\<close>

definition build_parameter_set ::
  "env \<Rightarrow> json \<Rightarrow> json \<Rightarrow> json \<Rightarrow> json \<Rightarrow> (json \<rightharpoonup> file_content)
     \<Rightarrow> error + (json \<rightharpoonup> file_content)" where
  "build_parameter_set E args_dict modulename filepath relative fs =
     (case open_error E filepath of
        Some e \<Rightarrow> Inl e
      | None \<Rightarrow>
          Inr (fs(filepath \<mapsto> Datastack (parameter_set_type E)
                 \<lparr>args = args_dict, model_name = modulename,
                  invest_version = JStr (cli_version E)\<rparr>)))"

section \<open>The route handlers\<close>

text \<open>
  A handler takes the request and the state and returns the response body, or the
  exception that leaves the handler, together with the state it leaves behind.
\<close>

type_synonym handler = "env \<Rightarrow> request \<Rightarrow> server_state \<Rightarrow> (error + string) \<times> server_state"

definition shutdown_server :: "request \<Rightarrow> server_state \<Rightarrow> (error + unit) \<times> server_state" where
  "shutdown_server req s =
     (if werkzeug_server_shutdown req
      then (Inr (), (emit CallServerShutdown s)\<lparr>running := False\<rparr>)
      else (Inl (RuntimeError ''Not running with the Werkzeug Server''), s))"

definition get_is_ready :: handler where
  "get_is_ready E req s = (Inr ''Flask ready'', s)"

definition shutdown :: handler where
  "shutdown E req s =
     (case shutdown_server req s of
        (Inl e, s1) \<Rightarrow> (Inl e, s1)
      | (Inr u, s1) \<Rightarrow> (Inr ''Flask server shutting down...'', s1))"

definition get_invest_models :: handler where
  "get_invest_models E req s =
     (Inr (build_model_list_json E), emit (LogDebugText ''get model list'') s)"

definition get_invest_getspec :: handler where
  "get_invest_getspec E req s =
     (let target_model = get_json req in
      case dict_lookup (map_of (MODEL_UIS E)) target_model of
        Inl e \<Rightarrow> (Inl e, s)
      | Inr ui \<Rightarrow>
          let target_module = JStr (pyname ui);
              s1 = emit (CallImportModule target_module) s in
          (case import_module E target_module of
             Inl e \<Rightarrow> (Inl e, s1)
           | Inr model_module \<Rightarrow>
               let s2 = emit (LogDebugText (module_file model_module)) s1 in
               (case ARGS_SPEC model_module of
                  None \<Rightarrow> (Inl AttributeError, s2)
                | Some spec \<Rightarrow> (Inr (json_dumps spec), s2))))"

text \<open>Lines 97 to 100: only a \<^verbatim>\<open>KeyError\<close> is replaced by \<^verbatim>\<open>None\<close>.\<close>

definition get_limit_to :: "json \<Rightarrow> error + json" where
  "get_limit_to payload =
     (case getitem payload ''limit_to'' of
        Inl (KeyError k) \<Rightarrow> Inr JNull
      | Inl e \<Rightarrow> Inl e
      | Inr v \<Rightarrow> Inr v)"

definition get_invest_validate :: handler where
  "get_invest_validate E req s =
     (let payload = get_json req;
          s1 = emit (LogDebug payload) s in
      case getitem payload ''model_module'' of
        Inl e \<Rightarrow> (Inl e, s1)
      | Inr target_module \<Rightarrow>
      (case getitem payload ''args'' of
         Inl e \<Rightarrow> (Inl e, s1)
       | Inr a \<Rightarrow>
      (case py_json_loads E a of
         Inl e \<Rightarrow> (Inl e, s1)
       | Inr args_dict \<Rightarrow>
      let s2 = emit (LogDebug args_dict) s1 in
      (case get_limit_to payload of
         Inl e \<Rightarrow> (Inl e, s2)
       | Inr limit_to \<Rightarrow>
      let s3 = emit (CallImportModule target_module) s2 in
      (case import_module E target_module of
         Inl e \<Rightarrow> (Inl e, s3)
       | Inr model_module \<Rightarrow>
      (case validate model_module of
         None \<Rightarrow> (Inl AttributeError, s3)
       | Some f \<Rightarrow>
      let s4 = emit (CallValidate target_module args_dict limit_to) s3 in
      (case f args_dict limit_to of
         Inl e \<Rightarrow> (Inl e, s4)
       | Inr results \<Rightarrow>
           (Inr (json_dumps results), emit (LogDebug results) s4))))))))"

text \<open>
  Lines 125 and 126, the body of the \<^verbatim>\<open>try\<close>: a dataset or a layer that is \<^verbatim>\<open>None\<close>
  raises \<^verbatim>\<open>AttributeError\<close> at the next attribute access.
\<close>

definition read_colnames :: "env \<Rightarrow> json \<Rightarrow> error + string list" where
  "read_colnames E vector_path =
     (case gdal_OpenEx E vector_path of
        Inl e \<Rightarrow> Inl e
      | Inr None \<Rightarrow> Inl AttributeError
      | Inr (Some vector) \<Rightarrow>
          (case GetLayer vector of
             None \<Rightarrow> Inl AttributeError
           | Some layer \<Rightarrow> Inr (schema layer)))"

definition get_vector_colnames :: handler where
  "get_vector_colnames E req s =
     (let payload = get_json req;
          s1 = emit (LogDebug payload) s in
      case getitem payload ''vector_path'' of
        Inl e \<Rightarrow> (Inl e, s1)
      | Inr vector_path \<Rightarrow>
          let (colnames, s2) =
                (if truthy vector_path then
                   (case read_colnames E vector_path of
                      Inl e \<Rightarrow>
                        ([], emit (LogError (''Could not read column names from ''
                                              @ py_str vector_path))
                               (emit (CallOpenEx vector_path) s1))
                    | Inr names \<Rightarrow> (names, emit (CallOpenEx vector_path) s1))
                 else ([], s1));
              result = JDict [(''colnames'', JList (map JStr colnames))]
          in (Inr (json_dumps result), emit (LogDebug result) s2))"

definition get_vector_has_points :: handler where
  "get_vector_has_points E req s =
     (let payload = get_json req;
          s1 = emit (LogDebug payload) s in
      case getitem payload ''vector_path'' of
        Inl e \<Rightarrow> (Inl e, s1)
      | Inr vector_path \<Rightarrow>
          let (has_points, s2) =
                (if truthy vector_path then
                   (case vector_may_contain_points E vector_path of
                      Inl e \<Rightarrow>
                        (True, emit (LogError (''Could not tell if vector ''
                                                @ py_str vector_path @ '' contains points.''))
                                 (emit (CallVectorMayContainPoints vector_path) s1))
                    | Inr b \<Rightarrow> (b, emit (CallVectorMayContainPoints vector_path) s1))
                 else (True, s1));
              result = JDict [(''has_points'', JBool has_points)]
          in (Inr (json_dumps result), emit (LogDebug result) s2))"

definition post_datastack_file :: handler where
  "post_datastack_file E req s =
     (let filepath = get_json req;
          s1 = emit (CallGetDatastackInfo filepath) s in
      case get_datastack_info (files s) filepath of
        Inl e \<Rightarrow> (Inl e, s1)
      | Inr (stack_type, stack_info) \<Rightarrow>
          (case dict_lookup (MODULE_MODELRUN_MAP s1) (model_name stack_info) of
             Inl e \<Rightarrow> (Inl e, s1)
           | Inr meta \<Rightarrow>
               let result_dict = JDict
                     [(''type'', JStr stack_type),
                      (''args'', args stack_info),
                      (''module_name'', model_name stack_info),
                      (''model_run_name'', JStr (run_name meta)),
                      (''model_human_name'', JStr (human_name meta)),
                      (''invest_version'', invest_version stack_info)]
               in (Inr (json_dumps result_dict), emit (LogDebug result_dict) s1)))"

definition write_parameter_set_file :: handler where
  "write_parameter_set_file E req s =
     (let payload = get_json req in
      case getitem payload ''parameterSetPath'' of
        Inl e \<Rightarrow> (Inl e, s)
      | Inr filepath \<Rightarrow>
      (case getitem payload ''moduleName'' of
         Inl e \<Rightarrow> (Inl e, s)
       | Inr modulename \<Rightarrow>
      (case getitem payload ''args'' of
         Inl e \<Rightarrow> (Inl e, s)
       | Inr a \<Rightarrow>
      (case py_json_loads E a of
         Inl e \<Rightarrow> (Inl e, s)
       | Inr args_dict \<Rightarrow>
      (case getitem payload ''relativePaths'' of
         Inl e \<Rightarrow> (Inl e, s)
       | Inr relative_paths \<Rightarrow>
      let s1 = emit (CallBuildParameterSet args_dict modulename filepath relative_paths) s in
      (case build_parameter_set E args_dict modulename filepath relative_paths (files s1) of
         Inl e \<Rightarrow> (Inl e, s1)
       | Inr fs \<Rightarrow> (Inr ''parameter set saved'', s1\<lparr>files := fs\<rparr>)))))))"

text \<open>The template of lines 231 to 243 after \<^verbatim>\<open>textwrap.dedent\<close>, line by line.\<close>

definition script_template :: string where
  "script_template = concat (map (\<lambda>l. l @ [CHR 0x0A])
     [''# coding=UTF-8'',
      ''# -----------------------------------------------'',
      ''# Generated by InVEST {invest_version} on {today}'',
      ''# Model: {modelname}'',
      [],
      ''import {py_model}'',
      [],
      ''args = {model_args}'',
      [],
      ''if __name__ == '__main__':'',
      ''    {py_model}.execute(args)''])"

text \<open>Lines 248 to 255: the pretty-printed arguments after the two replacements.\<close>

definition render_args :: "env \<Rightarrow> json \<Rightarrow> string" where
  "render_args E args_dict =
     str_replace ''}'' ('','' @ [CHR 0x0A] @ ''}'')
       (str_replace ''{'' (''{'' @ [CHR 0x0A] @ '' '') (pformat E args_dict))"

definition render_script :: "env \<Rightarrow> json \<Rightarrow> json \<Rightarrow> json \<Rightarrow> error + string" where
  "render_script E modelname py_name args_dict =
     format_py
       (map_of [(''invest_version'', JStr (cli_version E)),
                (''today'', JStr (today E)),
                (''modelname'', modelname),
                (''py_model'', py_name),
                (''model_args'', JStr (render_args E args_dict))])
       script_template"

text \<open>
  \<^verbatim>\<open>codecs.open(save_filepath, 'w')\<close> creates or empties the file before the script is
  rendered and written.
\<close>

definition save_to_python :: handler where
  "save_to_python E req s =
     (let payload = get_json req in
      case getitem payload ''filepath'' of
        Inl e \<Rightarrow> (Inl e, s)
      | Inr save_filepath \<Rightarrow>
      (case getitem payload ''modelname'' of
         Inl e \<Rightarrow> (Inl e, s)
       | Inr modelname \<Rightarrow>
      (case getitem payload ''pyname'' of
         Inl e \<Rightarrow> (Inl e, s)
       | Inr py_name \<Rightarrow>
      (case getitem payload ''args'' of
         Inl e \<Rightarrow> (Inl e, s)
       | Inr a \<Rightarrow>
      (case py_json_loads E a of
         Inl e \<Rightarrow> (Inl e, s)
       | Inr args_dict \<Rightarrow>
      (case open_error E save_filepath of
         Some e \<Rightarrow> (Inl e, s)
       | None \<Rightarrow>
      let s1 = s\<lparr>files := (files s)(save_filepath \<mapsto> Text [])\<rparr> in
      (case render_script E modelname py_name args_dict of
         Inl e \<Rightarrow> (Inl e, s1)
       | Inr script \<Rightarrow>
           (Inr ''python script saved'',
            s1\<lparr>files := (files s1)(save_filepath \<mapsto> Text script)\<rparr>))))))))"

subsection \<open>Routing\<close>

datatype route =
    Ready | Shutdown | Models | Getspec | Validate | Colnames | VectorHasPoints
  | PostDatastackFile | WriteParameterSetFile | SaveToPython

fun handle :: "env \<Rightarrow> route \<Rightarrow> request \<Rightarrow> server_state \<Rightarrow> (error + string) \<times> server_state" where
  "handle E Ready = get_is_ready E"
| "handle E Shutdown = shutdown E"
| "handle E Models = get_invest_models E"
| "handle E Getspec = get_invest_getspec E"
| "handle E Validate = get_invest_validate E"
| "handle E Colnames = get_vector_colnames E"
| "handle E VectorHasPoints = get_vector_has_points E"
| "handle E PostDatastackFile = post_datastack_file E"
| "handle E WriteParameterSetFile = write_parameter_set_file E"
| "handle E SaveToPython = save_to_python E"

text \<open>
  The server handles one request after the other; an exception in a handler is answered
  with an error response and the server goes on; after a shutdown nothing is handled.
\<close>

fun serve :: "env \<Rightarrow> (route \<times> request) list \<Rightarrow> server_state \<Rightarrow> server_state" where
  "serve E [] s = s"
| "serve E (r # rs) s =
     (if running s then serve E rs (snd (handle E (fst r) (snd r) s)) else s)"

section \<open>A sample installation\<close>

text \<open>
  One concrete choice of the collaborators, used to run the handlers on concrete
  requests: a registry with the carbon model, a parser that knows two argument texts, a
  disk with one shapefile, and paths that can be written when they are strings.
\<close>

definition carbon_module :: py_module where
  "carbon_module =
     \<lparr>module_file = ''natcap/invest/carbon.py'',
      ARGS_SPEC = Some (JDict [(''model_name'', JStr ''Carbon''), (''args'', JDict [])]),
      validate = Some (\<lambda>args_dict limit_to. Inr (JList []))\<rparr>"

definition sample_args :: json where
  "sample_args = JDict [(''workspace_dir'', JStr ''/data/{run}'')]"

definition sample_env :: env where
  "sample_env =
     \<lparr>MODEL_UIS =
        [(''carbon'',
          \<lparr>pyname = ''natcap.invest.carbon'', humanname = ''Carbon Storage''\<rparr>)],
      cli_version = ''3.9.0'',
      build_model_list_json = json_dumps (JDict [(''Carbon Storage'', JStr ''carbon'')]),
      import_module =
        (\<lambda>name. if name = JStr ''natcap.invest.carbon'' then Inr carbon_module
                else Inl (Raised ''ModuleNotFoundError'')),
      json_loads =
        (\<lambda>text. if text = ''{}'' then Inr (JDict [])
                else if text = json_dumps sample_args then Inr sample_args
                else Inl (Raised ''JSONDecodeError'')),
      gdal_OpenEx =
        (\<lambda>path. if path = JStr ''/data/aoi.shp''
                  then Inr (Some (Dataset (Some (Layer [''id'', ''name'']))))
                else case path of JStr p \<Rightarrow> Inr None | _ \<Rightarrow> Inl TypeError),
      vector_may_contain_points =
        (\<lambda>path. if path = JStr ''/data/aoi.shp'' then Inr False
                else Inl (Raised ''AttributeError'')),
      pformat_wrapped = repr_with True,
      today = ''Tue Nov  3 12:00:00 2026'',
      open_error = (\<lambda>path. case path of JStr p \<Rightarrow> None | _ \<Rightarrow> Some TypeError),
      parameter_set_type = ''json''\<rparr>"

definition post :: "json \<Rightarrow> request" where
  "post payload = \<lparr>get_json = payload, werkzeug_server_shutdown = True\<rparr>"

definition sample_stack :: "string \<Rightarrow> datastack_info" where
  "sample_stack m = \<lparr>args = sample_args, model_name = JStr m, invest_version = JStr ''3.8.0''\<rparr>"

definition sample_disk :: "json \<rightharpoonup> file_content" where
  "sample_disk =
     [JStr ''/data/carbon.json'' \<mapsto> Datastack ''json'' (sample_stack ''natcap.invest.carbon''),
      JStr ''/data/other.json'' \<mapsto> Datastack ''json'' (sample_stack ''natcap.invest.other'')]"

section \<open>Properties\<close>

lemma emit_simps:
  "MODULE_MODELRUN_MAP (emit ev s) = MODULE_MODELRUN_MAP s"
  "files (emit ev s) = files s"
  "running (emit ev s) = running s"
  "events (emit ev s) = events s @ [ev]"
  by (simp_all add: emit_def)

text \<open>
  The text of the script, for every request: the header, the import of the module, the
  binding of \<open>args\<close> to the rendered arguments, and the call of \<open>execute\<close>.
\<close>

lemma render_script_text:
  "render_script E modelname py_name args_dict =
     Inr (''# coding=UTF-8\<newline># -----------------------------------------------\<newline>''
          @ ''# Generated by InVEST '' @ cli_version E @ '' on '' @ today E @ ''\<newline>''
          @ ''# Model: '' @ py_str modelname @ ''\<newline>\<newline>''
          @ ''import '' @ py_str py_name @ ''\<newline>\<newline>''
          @ ''args = '' @ render_args E args_dict @ ''\<newline>\<newline>''
          @ ''if __name__ == '__main__':\<newline>''
          @ ''    '' @ py_str py_name @ ''.execute(args)\<newline>'')"
  by (simp add: render_script_def script_template_def)

text \<open>
  Replacing a single character is a character-wise substitution, so the two replacements
  of lines 254 and 255 rewrite every brace of the pretty-printed text, wherever it
  stands: each \<^verbatim>\<open>{\<close> is followed by a newline and a space, each \<^verbatim>\<open>}\<close> is preceded by
  a comma and a newline.
\<close>

lemma str_replace_char:
  "str_replace [a] new s = concat (map (\<lambda>c. if c = a then new else [c]) s)"
  by (induction s) simp_all

lemma render_args_braces:
  "render_args E args_dict =
     concat (map (\<lambda>c. if c = CHR ''{'' then ''{\<newline> ''
                       else if c = CHR ''}'' then '',\<newline>}'' else [c])
                 (pformat E args_dict))"
proof -
  have "concat (map (\<lambda>c. if c = CHR ''}'' then '',\<newline>}'' else [c])
          (concat (map (\<lambda>c. if c = CHR ''{'' then ''{\<newline> '' else [c]) s))) =
        concat (map (\<lambda>c. if c = CHR ''{'' then ''{\<newline> ''
                          else if c = CHR ''}'' then '',\<newline>}'' else [c]) s)" for s :: string
    by (induction s) simp_all
  then show ?thesis
    by (simp add: render_args_def str_replace_char)
qed

lemma save_to_python_writes_script:
  assumes "get_json req = JDict kvs"
    and "map_of kvs ''filepath'' = Some save_filepath"
    and "map_of kvs ''modelname'' = Some modelname"
    and "map_of kvs ''pyname'' = Some py_name"
    and "map_of kvs ''args'' = Some (JStr a)"
    and "json_loads E a = Inr args_dict"
    and "open_error E save_filepath = None"
  shows "\<exists>script. render_script E modelname py_name args_dict = Inr script
       \<and> handle E SaveToPython req s =
           (Inr ''python script saved'', s\<lparr>files := (files s)(save_filepath \<mapsto> Text script)\<rparr>)"
  using assms
  by (simp add: save_to_python_def py_json_loads_def render_script_text)

text \<open>
  C1 (save-to-python route). The script imports the module and calls its \<open>execute\<close>
  (\<open>render_script_text\<close>), and every brace of the rendered mapping follows the
  convention (\<open>render_args_braces\<close>). The binding of \<open>args\<close> does not evaluate to the
  supplied mapping for every request: for the empty mapping \<^verbatim>\<open>{}\<close> the script written
  holds \<^verbatim>\<open>args = {\<close>, a line with a lone comma, and \<^verbatim>\<open>}\<close>, which is not a Python
  expression.
\<close>

theorem save_to_python_empty_args_script:
  "fst (handle sample_env SaveToPython
          (post (JDict [(''filepath'', JStr ''/tmp/run_carbon.py''),
                        (''modelname'', JStr ''carbon''),
                        (''pyname'', JStr ''natcap.invest.carbon''),
                        (''args'', JStr ''{}'')]))
          (startup sample_env Map.empty)) = Inr ''python script saved''
   \<and> files (snd (handle sample_env SaveToPython
          (post (JDict [(''filepath'', JStr ''/tmp/run_carbon.py''),
                        (''modelname'', JStr ''carbon''),
                        (''pyname'', JStr ''natcap.invest.carbon''),
                        (''args'', JStr ''{}'')]))
          (startup sample_env Map.empty))) (JStr ''/tmp/run_carbon.py'') =
       Some (Text
         (''# coding=UTF-8\<newline># -----------------------------------------------\<newline>''
          @ ''# Generated by InVEST 3.9.0 on Tue Nov  3 12:00:00 2026\<newline>''
          @ ''# Model: carbon\<newline>\<newline>''
          @ ''import natcap.invest.carbon\<newline>\<newline>''
          @ ''args = {\<newline> ,\<newline>}\<newline>\<newline>''
          @ ''if __name__ == '__main__':\<newline>''
          @ ''    natcap.invest.carbon.execute(args)\<newline>''))"
proof -
  have r: "render_args sample_env (JDict []) = ''{\<newline> ,\<newline>}''"
    by (simp add: render_args_def pformat_def)
  have e: "json_loads sample_env ''{}'' = Inr (JDict [])"
    "open_error sample_env (JStr ''/tmp/run_carbon.py'') = None"
    "cli_version sample_env = ''3.9.0''"
    "today sample_env = ''Tue Nov  3 12:00:00 2026''"
    by (simp_all add: sample_env_def)
  show ?thesis
    by (simp add: save_to_python_def py_json_loads_def render_script_text r e post_def)
qed

text \<open>
  A brace inside a string value is rewritten like a brace of the mapping: the value
  \<^verbatim>\<open>/data/{run}\<close> is rendered as a string literal broken over three lines.
\<close>

lemma render_args_brace_in_value:
  "render_args sample_env sample_args =
     ''{\<newline> '' @ [CHR 0x27] @ ''workspace_dir'' @ [CHR 0x27] @ '': '' @ [CHR 0x27]
       @ ''/data/{\<newline> run,\<newline>}'' @ [CHR 0x27] @ '',\<newline>}''"
  by (simp add: render_args_braces pformat_def sample_args_def repr_str_def repr_char_def Let_def)

text \<open>
  C2 (column-names route). With a \<open>vector_path\<close> field the response is the JSON object
  with the one field \<open>colnames\<close>, a list of strings. For the empty string the list is
  empty and nothing is called between the two log entries, so no file is opened. When
  \<^verbatim>\<open>gdal.OpenEx\<close> raises, returns \<^verbatim>\<open>None\<close> (a path that does not exist) or yields a
  dataset without a layer, the list is empty and the handler returns normally.
\<close>

theorem colnames_best_effort:
  assumes "getitem (get_json req) ''vector_path'' = Inr vector_path"
  shows "(\<exists>L. fst (handle E Colnames req s) =
                Inr (json_dumps (JDict [(''colnames'', JList (map JStr L))])))
       \<and> (vector_path = JStr [] \<longrightarrow>
            fst (handle E Colnames req s) = Inr (json_dumps (JDict [(''colnames'', JList [])]))
            \<and> events (snd (handle E Colnames req s)) =
                events s @ [LogDebug (get_json req), LogDebug (JDict [(''colnames'', JList [])])])
       \<and> ((\<exists>e. gdal_OpenEx E vector_path = Inl e) \<or> gdal_OpenEx E vector_path = Inr None
            \<or> gdal_OpenEx E vector_path = Inr (Some (Dataset None)) \<longrightarrow>
            fst (handle E Colnames req s) = Inr (json_dumps (JDict [(''colnames'', JList [])])))"
proof (intro conjI impI)
  show "\<exists>L. fst (handle E Colnames req s) =
                Inr (json_dumps (JDict [(''colnames'', JList (map JStr L))]))"
  proof (cases "truthy vector_path")
    case False
    with assms have "fst (handle E Colnames req s) =
        Inr (json_dumps (JDict [(''colnames'', JList (map JStr []))]))"
      by (simp add: get_vector_colnames_def Let_def)
    then show ?thesis by blast
  next
    case True
    show ?thesis
    proof (cases "read_colnames E vector_path")
      case (Inl e)
      with True assms have "fst (handle E Colnames req s) =
          Inr (json_dumps (JDict [(''colnames'', JList (map JStr []))]))"
        by (simp add: get_vector_colnames_def Let_def)
      then show ?thesis by blast
    next
      case (Inr names)
      with True assms have "fst (handle E Colnames req s) =
          Inr (json_dumps (JDict [(''colnames'', JList (map JStr names))]))"
        by (simp add: get_vector_colnames_def Let_def)
      then show ?thesis by blast
    qed
  qed
next
  assume "vector_path = JStr []"
  with assms show "fst (handle E Colnames req s) =
      Inr (json_dumps (JDict [(''colnames'', JList [])]))"
    by (simp add: get_vector_colnames_def Let_def)
next
  assume "vector_path = JStr []"
  with assms show "events (snd (handle E Colnames req s)) =
      events s @ [LogDebug (get_json req), LogDebug (JDict [(''colnames'', JList [])])]"
    by (simp add: get_vector_colnames_def Let_def emit_simps)
next
  assume "(\<exists>e. gdal_OpenEx E vector_path = Inl e) \<or> gdal_OpenEx E vector_path = Inr None
            \<or> gdal_OpenEx E vector_path = Inr (Some (Dataset None))"
  then have "isl (read_colnames E vector_path)"
    by (auto simp: read_colnames_def)
  with assms show "fst (handle E Colnames req s) =
      Inr (json_dumps (JDict [(''colnames'', JList [])]))"
    by (cases "read_colnames E vector_path") (simp_all add: get_vector_colnames_def Let_def)
qed

theorem colnames_best_effort_witness:
  "getitem (get_json (post (JDict [(''vector_path'', JStr [])]))) ''vector_path'' = Inr (JStr [])
   \<and> fst (handle sample_env Colnames (post (JDict [(''vector_path'', JStr [])]))
            (startup sample_env Map.empty)) =
       Inr (json_dumps (JDict [(''colnames'', JList [])]))
   \<and> gdal_OpenEx sample_env (JStr ''/data/missing.shp'') = Inr None
   \<and> fst (handle sample_env Colnames (post (JDict [(''vector_path'', JStr ''/data/missing.shp'')]))
            (startup sample_env Map.empty)) =
       Inr (json_dumps (JDict [(''colnames'', JList [])]))"
  using colnames_best_effort
          [where req = "post (JDict [(''vector_path'', JStr [])])" and vector_path = "JStr []"
             and E = sample_env and s = "startup sample_env Map.empty"]
        colnames_best_effort
          [where req = "post (JDict [(''vector_path'', JStr ''/data/missing.shp'')])"
             and vector_path = "JStr ''/data/missing.shp''"
             and E = sample_env and s = "startup sample_env Map.empty"]
  by (simp add: post_def sample_env_def)

text \<open>
  C3 (vector-has-points route). With a \<open>vector_path\<close> field: for the empty string, and
  whenever the probe \<^verbatim>\<open>_vector_may_contain_points\<close> raises, the response is the JSON
  object with \<open>has_points\<close> true and the handler returns normally; for a path that is
  not empty (a truthy value) on which the probe returns \<open>b\<close>, the response carries \<open>b\<close>.
\<close>

theorem has_points_best_effort:
  assumes "getitem (get_json req) ''vector_path'' = Inr vector_path"
  shows "(vector_path = JStr [] \<or> (\<exists>e. vector_may_contain_points E vector_path = Inl e) \<longrightarrow>
            fst (handle E VectorHasPoints req s) =
              Inr (json_dumps (JDict [(''has_points'', JBool True)])))
       \<and> (truthy vector_path \<and> vector_may_contain_points E vector_path = Inr b \<longrightarrow>
            fst (handle E VectorHasPoints req s) =
              Inr (json_dumps (JDict [(''has_points'', JBool b)])))"
  using assms by (auto simp: get_vector_has_points_def Let_def)

theorem has_points_best_effort_witness:
  "getitem (get_json (post (JDict [(''vector_path'', JStr [])]))) ''vector_path'' = Inr (JStr [])
   \<and> fst (handle sample_env VectorHasPoints (post (JDict [(''vector_path'', JStr [])]))
            (startup sample_env Map.empty)) =
       Inr (json_dumps (JDict [(''has_points'', JBool True)]))
   \<and> truthy (JStr ''/data/aoi.shp'')
   \<and> vector_may_contain_points sample_env (JStr ''/data/aoi.shp'') = Inr False
   \<and> fst (handle sample_env VectorHasPoints (post (JDict [(''vector_path'', JStr ''/data/aoi.shp'')]))
            (startup sample_env Map.empty)) =
       Inr (json_dumps (JDict [(''has_points'', JBool False)]))"
  using has_points_best_effort
          [where req = "post (JDict [(''vector_path'', JStr [])])" and vector_path = "JStr []"
             and E = sample_env and s = "startup sample_env Map.empty"]
        has_points_best_effort
          [where req = "post (JDict [(''vector_path'', JStr ''/data/aoi.shp'')])"
             and vector_path = "JStr ''/data/aoi.shp''" and b = False
             and E = sample_env and s = "startup sample_env Map.empty"]
  by (simp add: post_def sample_env_def)

text \<open>
  The same handler in one equation: the probe is called on truthy values only (for a
  string: when it is not empty), and every other value gets the default.
\<close>

lemma has_points_any_value:
  assumes "getitem (get_json req) ''vector_path'' = Inr vector_path"
  shows "fst (handle E VectorHasPoints req s) =
           Inr (json_dumps (JDict [(''has_points'', JBool
             (if truthy vector_path
              then (case vector_may_contain_points E vector_path of
                      Inl e \<Rightarrow> True | Inr b \<Rightarrow> b)
              else True))]))"
  using assms by (simp add: get_vector_has_points_def Let_def split: sum.splits)

text \<open>
  C4 (get-argument-spec route). For a key that is not in \<^verbatim>\<open>_MODEL_UIS\<close> the lookup's
  \<^verbatim>\<open>KeyError\<close> leaves the handler and the state is untouched (no module is imported, no
  default is returned). For a registered key whose module loads and declares
  \<^verbatim>\<open>ARGS_SPEC\<close>, the response is the JSON encoding of that structure.
\<close>

theorem getspec_registered_or_fails:
  assumes "get_json req = JStr k"
  shows "(map_of (MODEL_UIS E) k = None \<longrightarrow>
           handle E Getspec req s = (Inl (KeyError (JStr k)), s))
       \<and> (map_of (MODEL_UIS E) k = Some ui \<and> import_module E (JStr (pyname ui)) = Inr m
            \<and> ARGS_SPEC m = Some spec \<longrightarrow>
           fst (handle E Getspec req s) = Inr (json_dumps spec))"
  using assms by (simp add: get_invest_getspec_def)

theorem getspec_registered_or_fails_witness:
  "get_json (post (JStr ''nope'')) = JStr ''nope''
   \<and> map_of (MODEL_UIS sample_env) ''nope'' = None
   \<and> handle sample_env Getspec (post (JStr ''nope'')) (startup sample_env Map.empty) =
       (Inl (KeyError (JStr ''nope'')), startup sample_env Map.empty)
   \<and> map_of (MODEL_UIS sample_env) ''carbon'' =
       Some \<lparr>pyname = ''natcap.invest.carbon'', humanname = ''Carbon Storage''\<rparr>
   \<and> import_module sample_env (JStr ''natcap.invest.carbon'') = Inr carbon_module
   \<and> fst (handle sample_env Getspec (post (JStr ''carbon'')) (startup sample_env Map.empty)) =
       Inr (json_dumps (JDict [(''model_name'', JStr ''Carbon''), (''args'', JDict [])]))"
  using getspec_registered_or_fails
          [where req = "post (JStr ''nope'')" and k = "''nope''"
             and E = sample_env and s = "startup sample_env Map.empty"]
        getspec_registered_or_fails
          [where req = "post (JStr ''carbon'')" and k = "''carbon''"
             and ui = "\<lparr>pyname = ''natcap.invest.carbon'', humanname = ''Carbon Storage''\<rparr>"
             and m = carbon_module
             and spec = "JDict [(''model_name'', JStr ''Carbon''), (''args'', JDict [])]"
             and E = sample_env and s = "startup sample_env Map.empty"]
  by (simp add: post_def sample_env_def carbon_module_def)

text \<open>A key that is not a registered string never gets a response.\<close>

lemma getspec_unregistered_fails:
  assumes "dict_lookup (map_of (MODEL_UIS E)) (get_json req) = Inl e"
  shows "handle E Getspec req s = (Inl e, s)"
  using assms by (simp add: get_invest_getspec_def)

text \<open>
  C5 (validate route). With a payload that names a module and carries the arguments as
  JSON text, \<open>limit_to\<close> is the payload's field when present and \<^verbatim>\<open>None\<close> when absent; an
  exception of the module load leaves the handler; otherwise the module's \<open>validate\<close> is
  called with the parsed arguments and \<open>limit_to\<close>, its exception leaves the handler, and
  its result is returned JSON-encoded.
\<close>

theorem validate_route:
  assumes "get_json req = JDict kvs"
    and "map_of kvs ''model_module'' = Some target_module"
    and "map_of kvs ''args'' = Some (JStr a)"
    and "json_loads E a = Inr args_dict"
    and "limit_to = (case map_of kvs ''limit_to'' of None \<Rightarrow> JNull | Some v \<Rightarrow> v)"
  shows "fst (handle E Validate req s) =
           (case import_module E target_module of
              Inl e \<Rightarrow> Inl e
            | Inr model_module \<Rightarrow>
                (case validate model_module of
                   None \<Rightarrow> Inl AttributeError
                 | Some f \<Rightarrow>
                     (case f args_dict limit_to of
                        Inl e \<Rightarrow> Inl e
                      | Inr results \<Rightarrow> Inr (json_dumps results))))
       \<and> events (snd (handle E Validate req s)) =
           events s @ [LogDebug (get_json req), LogDebug args_dict, CallImportModule target_module]
           @ (case import_module E target_module of
                Inl e \<Rightarrow> []
              | Inr model_module \<Rightarrow>
                  (case validate model_module of
                     None \<Rightarrow> []
                   | Some f \<Rightarrow>
                       CallValidate target_module args_dict limit_to
                       # (case f args_dict limit_to of
                            Inl e \<Rightarrow> []
                          | Inr results \<Rightarrow> [LogDebug results])))"
  using assms
  by (simp add: get_invest_validate_def get_limit_to_def py_json_loads_def Let_def emit_simps
           split: sum.splits option.splits)

theorem validate_route_witness:
  "get_json (post (JDict [(''model_module'', JStr ''natcap.invest.carbon''),
                          (''args'', JStr ''{}'')])) =
     JDict [(''model_module'', JStr ''natcap.invest.carbon''), (''args'', JStr ''{}'')]
   \<and> json_loads sample_env ''{}'' = Inr (JDict [])
   \<and> fst (handle sample_env Validate
            (post (JDict [(''model_module'', JStr ''natcap.invest.carbon''),
                          (''args'', JStr ''{}'')]))
            (startup sample_env Map.empty)) = Inr ''[]''"
  using validate_route
          [where req = "post (JDict [(''model_module'', JStr ''natcap.invest.carbon''),
                                     (''args'', JStr ''{}'')])"
             and kvs = "[(''model_module'', JStr ''natcap.invest.carbon''),
                         (''args'', JStr ''{}'')]"
             and target_module = "JStr ''natcap.invest.carbon''" and a = "''{}''"
             and args_dict = "JDict []" and limit_to = JNull
             and E = sample_env and s = "startup sample_env Map.empty"]
  by (simp add: post_def sample_env_def carbon_module_def)

text \<open>
  C6 (parse-datastack-file route). When the file parses and its model name is a key of
  \<^verbatim>\<open>MODULE_MODELRUN_MAP\<close>, the response is the JSON object with the six fields \<open>type\<close>,
  \<open>args\<close>, \<open>module_name\<close>, \<open>model_run_name\<close>, \<open>model_human_name\<close> and \<open>invest_version\<close>,
  the run name and the human name being those of the registry entry; when the model name
  is not a key, the \<^verbatim>\<open>KeyError\<close> of the lookup leaves the handler.
\<close>

theorem datastack_file_fields:
  assumes "get_datastack_info (files s) (get_json req) = Inr (stack_type, stack_info)"
    and "model_name stack_info = JStr m"
  shows "(MODULE_MODELRUN_MAP s m = Some meta \<longrightarrow>
            fst (handle E PostDatastackFile req s) =
              Inr (json_dumps (JDict
                [(''type'', JStr stack_type),
                 (''args'', args stack_info),
                 (''module_name'', JStr m),
                 (''model_run_name'', JStr (run_name meta)),
                 (''model_human_name'', JStr (human_name meta)),
                 (''invest_version'', invest_version stack_info)])))
       \<and> (MODULE_MODELRUN_MAP s m = None \<longrightarrow>
            fst (handle E PostDatastackFile req s) = Inl (KeyError (JStr m)))"
  using assms by (simp add: post_datastack_file_def Let_def emit_simps)

lemma sample_registry:
  "MODULE_MODELRUN_MAP (startup sample_env fs) ''natcap.invest.carbon'' =
     Some \<lparr>run_name = ''carbon'', human_name = ''Carbon Storage''\<rparr>"
  "MODULE_MODELRUN_MAP (startup sample_env fs) ''natcap.invest.other'' = None"
  by (simp_all add: startup_def build_MODULE_MODELRUN_MAP_def sample_env_def)

theorem datastack_file_fields_witness:
  "get_datastack_info (files (startup sample_env sample_disk))
       (get_json (post (JStr ''/data/carbon.json''))) =
     Inr (''json'', sample_stack ''natcap.invest.carbon'')
   \<and> fst (handle sample_env PostDatastackFile (post (JStr ''/data/carbon.json''))
            (startup sample_env sample_disk)) =
       Inr (json_dumps (JDict
         [(''type'', JStr ''json''),
          (''args'', sample_args),
          (''module_name'', JStr ''natcap.invest.carbon''),
          (''model_run_name'', JStr ''carbon''),
          (''model_human_name'', JStr ''Carbon Storage''),
          (''invest_version'', JStr ''3.8.0'')]))
   \<and> get_datastack_info (files (startup sample_env sample_disk))
       (get_json (post (JStr ''/data/other.json''))) =
     Inr (''json'', sample_stack ''natcap.invest.other'')
   \<and> fst (handle sample_env PostDatastackFile (post (JStr ''/data/other.json''))
            (startup sample_env sample_disk)) =
       Inl (KeyError (JStr ''natcap.invest.other''))"
proof -
  have f: "get_datastack_info (files (startup sample_env sample_disk)) (JStr ''/data/carbon.json'')
             = Inr (''json'', sample_stack ''natcap.invest.carbon'')"
    "get_datastack_info (files (startup sample_env sample_disk)) (JStr ''/data/other.json'')
             = Inr (''json'', sample_stack ''natcap.invest.other'')"
    by (simp_all add: startup_def get_datastack_info_def sample_disk_def)
  have g: "model_name (sample_stack m) = JStr m" "args (sample_stack m) = sample_args"
    "invest_version (sample_stack m) = JStr ''3.8.0''" for m
    by (simp_all add: sample_stack_def)
  show ?thesis
    using datastack_file_fields
          [where req = "post (JStr ''/data/carbon.json'')" and stack_type = "''json''"
             and stack_info = "sample_stack ''natcap.invest.carbon''"
             and m = "''natcap.invest.carbon''"
             and meta = "\<lparr>run_name = ''carbon'', human_name = ''Carbon Storage''\<rparr>"
             and E = sample_env and s = "startup sample_env sample_disk"]
        datastack_file_fields
          [where req = "post (JStr ''/data/other.json'')" and stack_type = "''json''"
             and stack_info = "sample_stack ''natcap.invest.other''"
             and m = "''natcap.invest.other''"
             and E = sample_env and s = "startup sample_env sample_disk"]
    by (simp add: sample_registry f g post_def)
qed

text \<open>
  C7 (round trip through the two routes). Writing a parameter set under a module name
  that is not a key of \<^verbatim>\<open>MODULE_MODELRUN_MAP\<close> succeeds, and reading the file back fails
  with the \<^verbatim>\<open>KeyError\<close> of the registry lookup, so nothing is read back.
\<close>

theorem round_trip_unregistered_module:
  "fst (handle sample_env WriteParameterSetFile
          (post (JDict [(''parameterSetPath'', JStr ''/data/saved.json''),
                        (''moduleName'', JStr ''natcap.invest.other''),
                        (''args'', JStr ''{}''),
                        (''relativePaths'', JBool False)]))
          (startup sample_env Map.empty)) = Inr ''parameter set saved''
   \<and> fst (handle sample_env PostDatastackFile (post (JStr ''/data/saved.json''))
          (snd (handle sample_env WriteParameterSetFile
                  (post (JDict [(''parameterSetPath'', JStr ''/data/saved.json''),
                                (''moduleName'', JStr ''natcap.invest.other''),
                                (''args'', JStr ''{}''),
                                (''relativePaths'', JBool False)]))
                  (startup sample_env Map.empty)))) =
       Inl (KeyError (JStr ''natcap.invest.other''))"
proof -
  have e: "json_loads sample_env ''{}'' = Inr (JDict [])"
    "open_error sample_env (JStr ''/data/saved.json'') = None"
    by (simp_all add: sample_env_def)
  show ?thesis
    by (simp add: write_parameter_set_file_def post_datastack_file_def py_json_loads_def
          build_parameter_set_def get_datastack_info_def e post_def Let_def emit_simps
          sample_registry)
qed

text \<open>
  C7, amended. For every argument mapping that parses, every path that can be written
  and every module name: the write route succeeds, and the parse-datastack-file route on
  the same path then looks the written module name up in \<^verbatim>\<open>MODULE_MODELRUN_MAP\<close>. When
  the name is a key, the response carries the module name and the argument mapping that
  were written, with the run and human name of the registry entry. When the name is a
  string that is not a key, the read-back fails with the \<^verbatim>\<open>KeyError\<close> of the lookup; a
  name that is not a string fails with the exception of the same lookup (\<^verbatim>\<open>TypeError\<close>
  for a list or a dictionary, \<^verbatim>\<open>KeyError\<close> otherwise).
\<close>

theorem round_trip_by_registry:
  assumes "get_json req = JDict kvs"
    and "map_of kvs ''parameterSetPath'' = Some filepath"
    and "map_of kvs ''moduleName'' = Some modulename"
    and "map_of kvs ''args'' = Some (JStr a)"
    and "json_loads E a = Inr args_dict"
    and "map_of kvs ''relativePaths'' = Some relative_paths"
    and "open_error E filepath = None"
    and "get_json req' = filepath"
  shows "fst (handle E WriteParameterSetFile req s) = Inr ''parameter set saved''
       \<and> (modulename = JStr m \<and> MODULE_MODELRUN_MAP s m = Some meta \<longrightarrow>
            fst (handle E PostDatastackFile req' (snd (handle E WriteParameterSetFile req s))) =
              Inr (json_dumps (JDict
                [(''type'', JStr (parameter_set_type E)),
                 (''args'', args_dict),
                 (''module_name'', JStr m),
                 (''model_run_name'', JStr (run_name meta)),
                 (''model_human_name'', JStr (human_name meta)),
                 (''invest_version'', JStr (cli_version E))])))
       \<and> (modulename = JStr m \<and> MODULE_MODELRUN_MAP s m = None \<longrightarrow>
            fst (handle E PostDatastackFile req' (snd (handle E WriteParameterSetFile req s))) =
              Inl (KeyError (JStr m)))
       \<and> ((\<exists>xs. modulename = JList xs) \<or> (\<exists>d. modulename = JDict d) \<longrightarrow>
            fst (handle E PostDatastackFile req' (snd (handle E WriteParameterSetFile req s))) =
              Inl TypeError)
       \<and> (modulename = JNull \<or> (\<exists>t. modulename = JBool t) \<or> (\<exists>i. modulename = JInt i) \<longrightarrow>
            fst (handle E PostDatastackFile req' (snd (handle E WriteParameterSetFile req s))) =
              Inl (KeyError modulename))"
proof -
  have w: "write_parameter_set_file E req s =
      (Inr ''parameter set saved'',
       (emit (CallBuildParameterSet args_dict modulename filepath relative_paths) s)
         \<lparr>files := (files s)(filepath \<mapsto> Datastack (parameter_set_type E)
              \<lparr>args = args_dict, model_name = modulename,
               invest_version = JStr (cli_version E)\<rparr>)\<rparr>)"
    using assms
    by (simp add: write_parameter_set_file_def py_json_loads_def build_parameter_set_def
          Let_def emit_simps)
  have r: "fst (handle E PostDatastackFile req' (snd (handle E WriteParameterSetFile req s))) =
      (case dict_lookup (MODULE_MODELRUN_MAP s) modulename of
         Inl e \<Rightarrow> Inl e
       | Inr entry \<Rightarrow>
           Inr (json_dumps (JDict
             [(''type'', JStr (parameter_set_type E)),
              (''args'', args_dict),
              (''module_name'', modulename),
              (''model_run_name'', JStr (run_name entry)),
              (''model_human_name'', JStr (human_name entry)),
              (''invest_version'', JStr (cli_version E))])))"
    using assms
    by (simp add: w post_datastack_file_def get_datastack_info_def Let_def emit_simps
          split: sum.splits)
  show ?thesis
    unfolding r by (auto simp: w)
qed

theorem round_trip_by_registry_witness:
  "json_loads sample_env (json_dumps sample_args) = Inr sample_args
   \<and> open_error sample_env (JStr ''/data/saved.json'') = None
   \<and> MODULE_MODELRUN_MAP (startup sample_env Map.empty) ''natcap.invest.carbon'' =
       Some \<lparr>run_name = ''carbon'', human_name = ''Carbon Storage''\<rparr>
   \<and> fst (handle sample_env PostDatastackFile (post (JStr ''/data/saved.json''))
          (snd (handle sample_env WriteParameterSetFile
                  (post (JDict [(''parameterSetPath'', JStr ''/data/saved.json''),
                                (''moduleName'', JStr ''natcap.invest.carbon''),
                                (''args'', JStr (json_dumps sample_args)),
                                (''relativePaths'', JBool False)]))
                  (startup sample_env Map.empty)))) =
       Inr (json_dumps (JDict
         [(''type'', JStr ''json''),
          (''args'', sample_args),
          (''module_name'', JStr ''natcap.invest.carbon''),
          (''model_run_name'', JStr ''carbon''),
          (''model_human_name'', JStr ''Carbon Storage''),
          (''invest_version'', JStr ''3.9.0'')]))
   \<and> MODULE_MODELRUN_MAP (startup sample_env Map.empty) ''natcap.invest.other'' = None
   \<and> fst (handle sample_env PostDatastackFile (post (JStr ''/data/saved.json''))
          (snd (handle sample_env WriteParameterSetFile
                  (post (JDict [(''parameterSetPath'', JStr ''/data/saved.json''),
                                (''moduleName'', JStr ''natcap.invest.other''),
                                (''args'', JStr (json_dumps sample_args)),
                                (''relativePaths'', JBool False)]))
                  (startup sample_env Map.empty)))) =
       Inl (KeyError (JStr ''natcap.invest.other''))
   \<and> fst (handle sample_env PostDatastackFile (post (JStr ''/data/saved.json''))
          (snd (handle sample_env WriteParameterSetFile
                  (post (JDict [(''parameterSetPath'', JStr ''/data/saved.json''),
                                (''moduleName'', JList []),
                                (''args'', JStr (json_dumps sample_args)),
                                (''relativePaths'', JBool False)]))
                  (startup sample_env Map.empty)))) =
       Inl TypeError
   \<and> fst (handle sample_env PostDatastackFile (post (JStr ''/data/saved.json''))
          (snd (handle sample_env WriteParameterSetFile
                  (post (JDict [(''parameterSetPath'', JStr ''/data/saved.json''),
                                (''moduleName'', JNull),
                                (''args'', JStr (json_dumps sample_args)),
                                (''relativePaths'', JBool False)]))
                  (startup sample_env Map.empty)))) =
       Inl (KeyError JNull)"
proof -
  have e: "json_loads sample_env (json_dumps sample_args) = Inr sample_args"
    "open_error sample_env (JStr ''/data/saved.json'') = None"
    "parameter_set_type sample_env = ''json''"
    "cli_version sample_env = ''3.9.0''"
    by (simp_all add: sample_env_def sample_args_def json_string_def)
  have i: "fst (handle sample_env PostDatastackFile (post (JStr ''/data/saved.json''))
          (snd (handle sample_env WriteParameterSetFile
                  (post (JDict [(''parameterSetPath'', JStr ''/data/saved.json''),
                                (''moduleName'', JStr ''natcap.invest.carbon''),
                                (''args'', JStr (json_dumps sample_args)),
                                (''relativePaths'', JBool False)]))
                  (startup sample_env Map.empty)))) =
       Inr (json_dumps (JDict
         [(''type'', JStr ''json''),
          (''args'', sample_args),
          (''module_name'', JStr ''natcap.invest.carbon''),
          (''model_run_name'', JStr ''carbon''),
          (''model_human_name'', JStr ''Carbon Storage''),
          (''invest_version'', JStr ''3.9.0'')]))"
    using round_trip_by_registry
          [where req = "post (JDict [(''parameterSetPath'', JStr ''/data/saved.json''),
                                (''moduleName'', JStr ''natcap.invest.carbon''),
                                (''args'', JStr (json_dumps sample_args)),
                                (''relativePaths'', JBool False)])"
             and kvs = "[(''parameterSetPath'', JStr ''/data/saved.json''),
                                (''moduleName'', JStr ''natcap.invest.carbon''),
                                (''args'', JStr (json_dumps sample_args)),
                                (''relativePaths'', JBool False)]"
             and filepath = "JStr ''/data/saved.json''"
             and modulename = "JStr ''natcap.invest.carbon''" and m = "''natcap.invest.carbon''"
             and a = "json_dumps sample_args" and args_dict = sample_args
             and relative_paths = "JBool False"
             and meta = "\<lparr>run_name = ''carbon'', human_name = ''Carbon Storage''\<rparr>"
             and req' = "post (JStr ''/data/saved.json'')"
             and E = sample_env and s = "startup sample_env Map.empty"]
    by (simp add: e sample_registry post_def)
  have ii: "fst (handle sample_env PostDatastackFile (post (JStr ''/data/saved.json''))
          (snd (handle sample_env WriteParameterSetFile
                  (post (JDict [(''parameterSetPath'', JStr ''/data/saved.json''),
                                (''moduleName'', JStr ''natcap.invest.other''),
                                (''args'', JStr (json_dumps sample_args)),
                                (''relativePaths'', JBool False)]))
                  (startup sample_env Map.empty)))) =
       Inl (KeyError (JStr ''natcap.invest.other''))"
    using round_trip_by_registry
          [where req = "post (JDict [(''parameterSetPath'', JStr ''/data/saved.json''),
                                (''moduleName'', JStr ''natcap.invest.other''),
                                (''args'', JStr (json_dumps sample_args)),
                                (''relativePaths'', JBool False)])"
             and kvs = "[(''parameterSetPath'', JStr ''/data/saved.json''),
                                (''moduleName'', JStr ''natcap.invest.other''),
                                (''args'', JStr (json_dumps sample_args)),
                                (''relativePaths'', JBool False)]"
             and filepath = "JStr ''/data/saved.json''"
             and modulename = "JStr ''natcap.invest.other''" and m = "''natcap.invest.other''"
             and a = "json_dumps sample_args" and args_dict = sample_args
             and relative_paths = "JBool False"
             and req' = "post (JStr ''/data/saved.json'')"
             and E = sample_env and s = "startup sample_env Map.empty"]
    by (simp add: e sample_registry post_def)
  have iii: "fst (handle sample_env PostDatastackFile (post (JStr ''/data/saved.json''))
          (snd (handle sample_env WriteParameterSetFile
                  (post (JDict [(''parameterSetPath'', JStr ''/data/saved.json''),
                                (''moduleName'', JList []),
                                (''args'', JStr (json_dumps sample_args)),
                                (''relativePaths'', JBool False)]))
                  (startup sample_env Map.empty)))) =
       Inl TypeError"
    using round_trip_by_registry
          [where req = "post (JDict [(''parameterSetPath'', JStr ''/data/saved.json''),
                                (''moduleName'', JList []),
                                (''args'', JStr (json_dumps sample_args)),
                                (''relativePaths'', JBool False)])"
             and kvs = "[(''parameterSetPath'', JStr ''/data/saved.json''),
                                (''moduleName'', JList []),
                                (''args'', JStr (json_dumps sample_args)),
                                (''relativePaths'', JBool False)]"
             and filepath = "JStr ''/data/saved.json''"
             and modulename = "JList []"
             and a = "json_dumps sample_args" and args_dict = sample_args
             and relative_paths = "JBool False"
             and req' = "post (JStr ''/data/saved.json'')"
             and E = sample_env and s = "startup sample_env Map.empty"]
    by (simp add: e post_def)
  have iv: "fst (handle sample_env PostDatastackFile (post (JStr ''/data/saved.json''))
          (snd (handle sample_env WriteParameterSetFile
                  (post (JDict [(''parameterSetPath'', JStr ''/data/saved.json''),
                                (''moduleName'', JNull),
                                (''args'', JStr (json_dumps sample_args)),
                                (''relativePaths'', JBool False)]))
                  (startup sample_env Map.empty)))) =
       Inl (KeyError JNull)"
    using round_trip_by_registry
          [where req = "post (JDict [(''parameterSetPath'', JStr ''/data/saved.json''),
                                (''moduleName'', JNull),
                                (''args'', JStr (json_dumps sample_args)),
                                (''relativePaths'', JBool False)])"
             and kvs = "[(''parameterSetPath'', JStr ''/data/saved.json''),
                                (''moduleName'', JNull),
                                (''args'', JStr (json_dumps sample_args)),
                                (''relativePaths'', JBool False)]"
             and filepath = "JStr ''/data/saved.json''"
             and modulename = JNull
             and a = "json_dumps sample_args" and args_dict = sample_args
             and relative_paths = "JBool False"
             and req' = "post (JStr ''/data/saved.json'')"
             and E = sample_env and s = "startup sample_env Map.empty"]
    by (simp add: e post_def)
  show ?thesis
    using i ii iii iv by (simp add: e sample_registry)
qed

text \<open>
  No handler assigns to \<^verbatim>\<open>MODULE_MODELRUN_MAP\<close>: whatever the route, the request and the
  outcome, the dictionary after the handler is the dictionary before it.
\<close>

lemma handle_keeps_registry:
  "MODULE_MODELRUN_MAP (snd (handle E r req s)) = MODULE_MODELRUN_MAP s"
proof (cases r)
  case Ready
  then show ?thesis by (simp add: get_is_ready_def)
next
  case Shutdown
  then show ?thesis by (simp add: shutdown_def shutdown_server_def emit_simps)
next
  case Models
  then show ?thesis by (simp add: get_invest_models_def emit_simps)
next
  case Getspec
  then show ?thesis
    by (simp add: get_invest_getspec_def Let_def emit_simps split: sum.splits option.splits)
next
  case Validate
  then show ?thesis
    by (simp add: get_invest_validate_def Let_def emit_simps split: sum.splits option.splits)
next
  case Colnames
  then show ?thesis
    by (simp add: get_vector_colnames_def Let_def emit_simps split: sum.splits prod.splits)
next
  case VectorHasPoints
  then show ?thesis
    by (simp add: get_vector_has_points_def Let_def emit_simps split: sum.splits prod.splits)
next
  case PostDatastackFile
  then show ?thesis
    by (simp add: post_datastack_file_def Let_def emit_simps split: sum.splits prod.splits)
next
  case WriteParameterSetFile
  then show ?thesis
    by (simp add: write_parameter_set_file_def Let_def emit_simps split: sum.splits)
next
  case SaveToPython
  then show ?thesis
    by (simp add: save_to_python_def Let_def split: sum.splits option.splits)
qed

lemma serve_keeps_registry:
  "MODULE_MODELRUN_MAP (serve E reqs s) = MODULE_MODELRUN_MAP s"
  by (induction reqs arbitrary: s) (simp_all add: handle_keeps_registry)

text \<open>
  C8 (the registry is built once and never mutated). After any sequence of requests,
  \<^verbatim>\<open>MODULE_MODELRUN_MAP\<close> is the dictionary built at startup from \<^verbatim>\<open>_MODEL_UIS\<close>; every
  lookup of a handler reads the state reached by the requests before it, so it reads
  that dictionary.
\<close>

theorem registry_never_mutated:
  "MODULE_MODELRUN_MAP (serve E reqs (startup E fs)) = build_MODULE_MODELRUN_MAP (MODEL_UIS E)"
  by (simp add: serve_keeps_registry startup_def)

text \<open>
  C9 (payload without \<open>vector_path\<close>). When the payload is a dictionary without the key,
  or is not a dictionary, the lookup \<^verbatim>\<open>payload['vector_path']\<close> raises (\<^verbatim>\<open>KeyError\<close> for the
  missing key, \<^verbatim>\<open>TypeError\<close> for a value that is not a dictionary) before the \<^verbatim>\<open>try\<close> is
  reached: both handlers end with that exception, after logging the payload only, and
  no default is returned.
\<close>

theorem missing_vector_path_propagates:
  assumes "\<forall>kvs. get_json req = JDict kvs \<longrightarrow> map_of kvs ''vector_path'' = None"
    and "e = (case get_json req of JDict kvs \<Rightarrow> KeyError (JStr ''vector_path'') | _ \<Rightarrow> TypeError)"
  shows "handle E Colnames req s = (Inl e, emit (LogDebug (get_json req)) s)
       \<and> handle E VectorHasPoints req s = (Inl e, emit (LogDebug (get_json req)) s)"
  using assms
  by (cases "get_json req")
     (simp_all add: get_vector_colnames_def get_vector_has_points_def Let_def)

theorem missing_vector_path_propagates_witness:
  "get_json (post (JDict [(''path'', JStr ''/data/aoi.shp'')])) =
     JDict [(''path'', JStr ''/data/aoi.shp'')]
   \<and> map_of [(''path'', JStr ''/data/aoi.shp'')] ''vector_path'' = None
   \<and> handle sample_env Colnames (post (JDict [(''path'', JStr ''/data/aoi.shp'')]))
         (startup sample_env Map.empty) =
       (Inl (KeyError (JStr ''vector_path'')),
        emit (LogDebug (JDict [(''path'', JStr ''/data/aoi.shp'')])) (startup sample_env Map.empty))
   \<and> handle sample_env VectorHasPoints (post (JStr ''/data/aoi.shp''))
         (startup sample_env Map.empty) =
       (Inl TypeError, emit (LogDebug (JStr ''/data/aoi.shp'')) (startup sample_env Map.empty))"
  using missing_vector_path_propagates
          [where req = "post (JDict [(''path'', JStr ''/data/aoi.shp'')])"
             and e = "KeyError (JStr ''vector_path'')"
             and E = sample_env and s = "startup sample_env Map.empty"]
        missing_vector_path_propagates
          [where req = "post (JStr ''/data/aoi.shp'')" and e = TypeError
             and E = sample_env and s = "startup sample_env Map.empty"]
  by (simp add: post_def)

text \<open>
  C10 (health route). Whatever the request and the state, the response is the string
  \<^verbatim>\<open>Flask ready\<close> and the state is unchanged.
\<close>

theorem health_route_fixed_string:
  "handle E Ready req s = (Inr ''Flask ready'', s)"
  by (simp add: get_is_ready_def)

end
